theory Spec2Isabelle
  imports Main "HOL-Library.AList" "HOL-Library.Sublist"
begin

section \<open>Values exchanged with the remote services\<close>

text \<open>
  Both scripts talk JSON over HTTP through the \<open>requests\<close> library. A JSON document is
  the value \<open>response.json()\<close> hands to Python: \<open>None\<close>, a bool, an int, a str, a list
  or a dict with string keys. A dict is an association list, which keeps Python's
  insertion order. JSON numbers with a fraction do not occur in what the scripts build
  and are not represented.

  A \<open>string\<close> is a list of 8-bit characters. The scripts only compare, concatenate and
  lower-case strings; the single place where the encoding could matter, \<open>str.lower\<close>, is
  discussed at \<open>lower\<close> below.
\<close>

datatype json =
    JNull
  | JBool bool
  | JInt int
  | JStr string
  | JList "json list"
  | JObj "(string \<times> json) list"

datatype http_method = GET | PUT | POST | PATCH

record request =
  req_method :: http_method
  req_url :: string
  req_headers :: "(string \<times> json) list"
  req_params :: "(string \<times> string) list"
  req_json :: "json option"

text \<open>
  A \<open>requests.Response\<close>: its \<open>status_code\<close>, its \<open>text\<close> and what \<open>json()\<close> returns
  (\<open>None\<close> when the body is not a JSON document, where \<open>json()\<close> raises).
\<close>

record response =
  status_code :: int
  resp_text :: string
  resp_json :: "json option"

text \<open>
  What a call of \<open>requests.get/put/post/patch\<close> does: it raises a
  \<open>RequestException\<close> (no connection, timeout, a header the library refuses) or it
  returns a response.
\<close>

datatype reply = Raised string | Responded response

datatype value_error =
    MinCapacityBelowOne int       \<comment> \<open>\<open>min_capacity must be >= 1, got {min_capacity}\<close>\<close>
  | MaxBelowMin int int           \<comment> \<open>\<open>max_capacity ({max}) must be >= min_capacity ({min})\<close>\<close>

datatype error =
    ValueError value_error
  | RequestException string
  | HTTPError response            \<comment> \<open>raised by \<open>raise_for_status\<close>; carries the response\<close>
  | JSONDecodeError
  | KeyError
  | IndexError
  | TypeError

definition bind_result :: "error + 'a \<Rightarrow> ('a \<Rightarrow> error + 'b) \<Rightarrow> error + 'b" where
  "bind_result r f = (case r of Inl e \<Rightarrow> Inl e | Inr x \<Rightarrow> f x)"

subsection \<open>The Python operators the scripts apply to JSON values\<close>

text \<open>Truth value of an object, as \<open>not x\<close> and \<open>if x:\<close> test it.\<close>

fun truthy :: "json \<Rightarrow> bool" where
  "truthy JNull = False"
| "truthy (JBool b) = b"
| "truthy (JInt i) = (i \<noteq> 0)"
| "truthy (JStr s) = (s \<noteq> [])"
| "truthy (JList xs) = (xs \<noteq> [])"
| "truthy (JObj kvs) = (kvs \<noteq> [])"

text \<open>
  \<open>key in x\<close> for a string \<open>key\<close>: a key of a dict, an element of a list, a substring
  of a str; \<open>None\<close>, bools and ints are not iterable.
\<close>

fun py_in :: "string \<Rightarrow> json \<Rightarrow> error + bool" where
  "py_in k (JObj kvs) = Inr (k \<in> set (map fst kvs))"
| "py_in k (JList xs) = Inr (JStr k \<in> set xs)"
| "py_in k (JStr s) = Inr (sublist k s)"
| "py_in k JNull = Inl TypeError"
| "py_in k (JBool b) = Inl TypeError"
| "py_in k (JInt i) = Inl TypeError"

text \<open>\<open>x[key]\<close> for a string \<open>key\<close>: only a dict can be indexed by a string.\<close>

fun getitem_str :: "json \<Rightarrow> string \<Rightarrow> error + json" where
  "getitem_str (JObj kvs) k = (case map_of kvs k of None \<Rightarrow> Inl KeyError | Some v \<Rightarrow> Inr v)"
| "getitem_str JNull k = Inl TypeError"
| "getitem_str (JBool b) k = Inl TypeError"
| "getitem_str (JInt i) k = Inl TypeError"
| "getitem_str (JStr s) k = Inl TypeError"
| "getitem_str (JList xs) k = Inl TypeError"

text \<open>
  \<open>x[0]\<close>: the first element of a list, the first character of a str, \<open>IndexError\<close> when
  either is empty; a dict parsed from JSON has no key \<open>0\<close>.
\<close>

fun getitem_0 :: "json \<Rightarrow> error + json" where
  "getitem_0 (JList xs) = (case xs of [] \<Rightarrow> Inl IndexError | x # _ \<Rightarrow> Inr x)"
| "getitem_0 (JStr s) = (case s of [] \<Rightarrow> Inl IndexError | c # _ \<Rightarrow> Inr (JStr [c]))"
| "getitem_0 (JObj kvs) = Inl KeyError"
| "getitem_0 JNull = Inl TypeError"
| "getitem_0 (JBool b) = Inl TypeError"
| "getitem_0 (JInt i) = Inl TypeError"

text \<open>
  \<open>Response.raise_for_status()\<close> of the \<open>requests\<close> library raises \<open>HTTPError\<close> for a
  status from 400 up to 599 and returns \<open>None\<close> for every other status.
\<close>

definition raise_for_status :: "response \<Rightarrow> error + unit" where
  "raise_for_status r =
     (if 400 \<le> status_code r \<and> status_code r < 600 then Inl (HTTPError r) else Inr ())"

definition response_json :: "response \<Rightarrow> error + json" where
  "response_json r = (case resp_json r of None \<Rightarrow> Inl JSONDecodeError | Some j \<Rightarrow> Inr j)"

section \<open>The process and its surroundings\<close>

text \<open>
  What a run reads from outside: the environment variables, the remote side (the reply
  to a request, which may depend on the requests made before it), the clock
  (\<open>datetime.utcnow().isoformat()\<close>, likewise), and Python's \<open>int()\<close> on a string
  (\<open>None\<close> where it raises \<open>ValueError\<close>).
\<close>

record world =
  env :: "string \<Rightarrow> string option"
  transport :: "request list \<Rightarrow> request \<Rightarrow> reply"
  utcnow :: "request list \<Rightarrow> string"
  py_int :: "string \<Rightarrow> int option"

text \<open>
  What a run prints. One constructor stands for one \<open>print\<close> statement, or for a run of
  adjacent ones, and carries the values the message interpolates.
\<close>

datatype line =
    Fetching string                         \<comment> \<open>Fetching Launch Spec details for ...\<close>
  | FetchWarning error                      \<comment> \<open>Warning: Could not fetch current Launch Spec config\<close>
  | Scaling string int int                  \<comment> \<open>Scaling Launch Spec (VNG), Min Instances, Max Instances\<close>
  | Reason string
  | WriteError int string                   \<comment> \<open>Error: status code, Response: text\<close>
  | Submitted json                          \<comment> \<open>scaling update submitted successfully, and the result\<close>
  | MissingVars "string list"
  | ParseError string                       \<comment> \<open>Error parsing capacity values\<close>
  | Validating
  | ScalingCompleted string int int string string
  | ScalingFailed error                     \<comment> \<open>Error during scaling operation, and the traceback\<close>
  | Authenticated
  | Updating string string                  \<comment> \<open>Updating Port.io entity ..., Status: ...\<close>
  | PortWarning int string                  \<comment> \<open>Warning: Could not update Port.io, Response: text\<close>
  | PortUpdated
  | PortSkipped "string list"
  | PortCompleted
  | PortError error                         \<comment> \<open>Error updating Port.io, and the traceback\<close>

text \<open>The effects of a run so far: the requests issued, in order, and the lines printed.\<close>

record effects =
  sent :: "request list"
  stdout :: "line list"

text \<open>
  \<open>print\<close> is taken to succeed: the standard output is one that accepts every line. On
  a stream whose encoding cannot represent the symbols in the messages, \<open>print\<close> raises
  \<open>UnicodeEncodeError\<close>; such a stream is outside this model, and nothing below is
  stated about the exit status of a run in every environment.
\<close>

definition py_print :: "line \<Rightarrow> effects \<Rightarrow> effects" where
  "py_print l s = s\<lparr>stdout := stdout s @ [l]\<rparr>"

definition send :: "world \<Rightarrow> request \<Rightarrow> effects \<Rightarrow> reply \<times> effects" where
  "send w rq s = (transport w (sent s) rq, s\<lparr>sent := sent s @ [rq]\<rparr>)"

text \<open>\<open>os.getenv(name, default)\<close>; \<open>os.getenv(name)\<close> is \<open>env w name\<close>.\<close>

definition getenv_default :: "world \<Rightarrow> string \<Rightarrow> string \<Rightarrow> string" where
  "getenv_default w name dflt = (case env w name of None \<Rightarrow> dflt | Some v \<Rightarrow> v)"

text \<open>\<open>not v\<close> for the result of \<open>os.getenv(name)\<close>: unset or empty.\<close>

definition unset :: "string option \<Rightarrow> bool" where
  "unset v = (case v of None \<Rightarrow> True | Some s \<Rightarrow> s = [])"

section \<open>scale\_spot\_ocean\_vng.py\<close>

record scaler =
  token :: string
  account_id :: string
  base_url :: string
  headers :: "(string \<times> json) list"

definition SpotOceanScaler :: "string \<Rightarrow> string \<Rightarrow> scaler" where
  "SpotOceanScaler tok acct =
     \<lparr>token = tok, account_id = acct, base_url = ''https://api.spotinst.io'',
      headers = [(''Authorization'', JStr (''Bearer '' @ tok)),
                 (''Content-Type'', JStr ''application/json'')]\<rparr>"

text \<open>The request \<open>requests.get\<close> is called with in \<open>get_launch_spec_details\<close>.\<close>

definition get_request :: "scaler \<Rightarrow> string \<Rightarrow> request" where
  "get_request self vng_id =
     \<lparr>req_method = GET,
      req_url = base_url self @ (''/ocean/aws/k8s/launchSpec/'' @ vng_id),
      req_headers = headers self,
      req_params = [(''accountId'', account_id self)],
      req_json = None\<rparr>"

definition get_launch_spec_details ::
    "world \<Rightarrow> scaler \<Rightarrow> string \<Rightarrow> effects \<Rightarrow> (error + json) \<times> effects" where
  "get_launch_spec_details w self vng_id s0 =
     (let s1 = py_print (Fetching vng_id) s0;
          (rep, s2) = send w (get_request self vng_id) s1
      in case rep of
           Raised m \<Rightarrow> (Inl (RequestException m), s2)
         | Responded resp \<Rightarrow>
             (bind_result (raise_for_status resp) (\<lambda>_.
              bind_result (response_json resp) (\<lambda>launch_spec_data.
              bind_result (py_in ''response'' launch_spec_data) (\<lambda>enveloped.
                if enveloped then
                  bind_result (getitem_str launch_spec_data ''response'') (\<lambda>r.
                  bind_result (getitem_str r ''items'') (\<lambda>items.
                  getitem_0 items))
                else Inr launch_spec_data))), s2))"

text \<open>The body \<open>scale_vng\<close> builds, and the request \<open>requests.put\<close> is called with.\<close>

definition update_payload :: "int \<Rightarrow> int \<Rightarrow> json" where
  "update_payload min_capacity max_capacity =
     JObj [(''launchSpec'',
       JObj [(''resourceLimits'',
         JObj [(''minInstanceCount'', JInt min_capacity),
               (''maxInstanceCount'', JInt max_capacity)])])]"

definition put_request :: "scaler \<Rightarrow> string \<Rightarrow> int \<Rightarrow> int \<Rightarrow> request" where
  "put_request self vng_id min_capacity max_capacity =
     \<lparr>req_method = PUT,
      req_url = base_url self @ (''/ocean/aws/k8s/launchSpec/'' @ vng_id),
      req_headers = headers self,
      req_params = [(''accountId'', account_id self)],
      req_json = Some (update_payload min_capacity max_capacity)\<rparr>"

definition scale_vng ::
    "world \<Rightarrow> scaler \<Rightarrow> string \<Rightarrow> string \<Rightarrow> int \<Rightarrow> int \<Rightarrow> string \<Rightarrow> effects
       \<Rightarrow> (error + json) \<times> effects" where
  "scale_vng w self cluster_id vng_id min_capacity max_capacity reason s0 =
     (let (fetched, s1) = get_launch_spec_details w self vng_id s0;
          (current_launch_spec, s2) =
             (case fetched of
                Inr c \<Rightarrow> (c, s1)
              | Inl e \<Rightarrow> (JObj [], py_print (FetchWarning e) s1));
          s3 = py_print (Scaling vng_id min_capacity max_capacity) s2;
          s4 = (if reason \<noteq> [] then py_print (Reason reason) s3 else s3);
          (rep, s5) = send w (put_request self vng_id min_capacity max_capacity) s4
      in case rep of
           Raised m \<Rightarrow> (Inl (RequestException m), s5)
         | Responded resp \<Rightarrow>
             (let (checked, s6) =
                    (if status_code resp \<notin> set [200, 201]
                     then (raise_for_status resp,
                           py_print (WriteError (status_code resp) (resp_text resp)) s5)
                     else (Inr (), s5))
              in case checked of
                   Inl e \<Rightarrow> (Inl e, s6)
                 | Inr _ \<Rightarrow>
                     (case response_json resp of
                        Inl e \<Rightarrow> (Inl e, s6)
                      | Inr result \<Rightarrow> (Inr result, py_print (Submitted result) s6))))"

definition validate_scaling_parameters :: "scaler \<Rightarrow> int \<Rightarrow> int \<Rightarrow> error + bool" where
  "validate_scaling_parameters self min_capacity max_capacity =
     (if min_capacity < 1 then Inl (ValueError (MinCapacityBelowOne min_capacity))
      else if max_capacity < min_capacity
        then Inl (ValueError (MaxBelowMin max_capacity min_capacity))
      else Inr True)"

text \<open>
  \<open>main\<close> of the scaling script, returning the exit status. After the check for missing
  variables every required variable is set, so \<open>the\<close> reads a value that is there.
\<close>

definition scale_main :: "world \<Rightarrow> effects \<Rightarrow> int \<times> effects" where
  "scale_main w s0 =
     (let spot_token = env w ''SPOT_TOKEN'';
          spot_account_id = env w ''SPOT_ACCOUNT_ID'';
          vng_id = env w ''VNG_ID'';
          min_capacity_str = env w ''MIN_CAPACITY'';
          max_capacity_str = env w ''MAX_CAPACITY'';
          reason = getenv_default w ''REASON'' '''';
          triggered_by = getenv_default w ''TRIGGERED_BY'' ''GitHub Actions'';
          missing_vars =
            (if unset spot_token then [''SPOT_TOKEN''] else []) @
            (if unset spot_account_id then [''SPOT_ACCOUNT_ID''] else []) @
            (if unset vng_id then [''VNG_ID''] else []) @
            (if unset min_capacity_str then [''MIN_CAPACITY''] else []) @
            (if unset max_capacity_str then [''MAX_CAPACITY''] else [])
      in if missing_vars \<noteq> [] then (1, py_print (MissingVars missing_vars) s0)
         else
           (case py_int w (the min_capacity_str) of
              None \<Rightarrow> (1, py_print (ParseError (the min_capacity_str)) s0)
            | Some min_capacity \<Rightarrow>
           (case py_int w (the max_capacity_str) of
              None \<Rightarrow> (1, py_print (ParseError (the max_capacity_str)) s0)
            | Some max_capacity \<Rightarrow>
               (let self = SpotOceanScaler (the spot_token) (the spot_account_id);
                    s1 = py_print Validating s0
                in case validate_scaling_parameters self min_capacity max_capacity of
                     Inl e \<Rightarrow> (1, py_print (ScalingFailed e) s1)
                   | Inr _ \<Rightarrow>
                       (case scale_vng w self '''' (the vng_id)
                               min_capacity max_capacity reason s1 of
                          (Inl e, s2) \<Rightarrow> (1, py_print (ScalingFailed e) s2)
                        | (Inr result, s2) \<Rightarrow>
                            (0, py_print (ScalingCompleted (the vng_id) min_capacity
                                   max_capacity triggered_by (utcnow w (sent s2))) s2))))))"

section \<open>update\_port\_scaling\_status.py\<close>

record reporter =
  client_id :: string
  client_secret :: string
  port_base_url :: string
  access_token :: json

text \<open>\<open>__init__\<close>: no token yet (\<open>None\<close>).\<close>

definition PortStatusReporter :: "string \<Rightarrow> string \<Rightarrow> reporter" where
  "PortStatusReporter cid secret =
     \<lparr>client_id = cid, client_secret = secret,
      port_base_url = ''https://api.port.io/v1'', access_token = JNull\<rparr>"

definition auth_request :: "reporter \<Rightarrow> request" where
  "auth_request self =
     \<lparr>req_method = POST,
      req_url = port_base_url self @ ''/auth/access_token'',
      req_headers = [],
      req_params = [],
      req_json = Some (JObj [(''clientId'', JStr (client_id self)),
                             (''clientSecret'', JStr (client_secret self))])\<rparr>"

definition authenticate ::
    "world \<Rightarrow> reporter \<Rightarrow> effects \<Rightarrow> (error + json) \<times> reporter \<times> effects" where
  "authenticate w self s0 =
     (let (rep, s1) = send w (auth_request self) s0
      in case rep of
           Raised m \<Rightarrow> (Inl (RequestException m), self, s1)
         | Responded resp \<Rightarrow>
             (case bind_result (raise_for_status resp) (\<lambda>_.
                   bind_result (response_json resp) (\<lambda>j.
                   getitem_str j ''accessToken'')) of
                Inl e \<Rightarrow> (Inl e, self, s1)
              | Inr tok \<Rightarrow>
                  (Inr tok, self\<lparr>access_token := tok\<rparr>, py_print Authenticated s1)))"

text \<open>
  \<open>str.lower()\<close>. The letters \<open>A\<close> to \<open>Z\<close> go to \<open>a\<close> to \<open>z\<close> and every other character
  stays. Python also lower-cases letters outside ASCII, to letters outside ASCII, with
  two exceptions (U+212A gives \<open>k\<close>, U+0130 gives \<open>i\<close> and a combining dot); neither
  letter occurs in the word the script compares with, so the comparison is the same.
\<close>

definition lower_char :: "char \<Rightarrow> char" where
  "lower_char c =
     (case map_of (zip ''ABCDEFGHIJKLMNOPQRSTUVWXYZ'' ''abcdefghijklmnopqrstuvwxyz'') c of
        None \<Rightarrow> c
      | Some d \<Rightarrow> d)"

definition lower :: "string \<Rightarrow> string" where
  "lower s = map lower_char s"

text \<open>The mapping from the workflow's status to the status shown in Port.\<close>

definition port_status :: "string \<Rightarrow> string" where
  "port_status scaling_status =
     (let is_successful = (lower scaling_status = ''success'')
      in if is_successful then ''COMPLETED'' else ''FAILED'')"

text \<open>\<open>d.update(other)\<close>: a key already there keeps its place, a new key goes last.\<close>

definition dict_update ::
    "(string \<times> json) list \<Rightarrow> (string \<times> json) list \<Rightarrow> (string \<times> json) list" where
  "dict_update d other = fold (\<lambda>(k, v). AList.update k v) other d"

definition entity_update ::
    "world \<Rightarrow> effects \<Rightarrow> string \<Rightarrow> (string \<times> json) list option \<Rightarrow> json" where
  "entity_update w s scaling_status details =
     (let properties =
            [(''last_scaling_status'', JStr (port_status scaling_status)),
             (''last_scaling_time'', JStr (utcnow w (sent s) @ ''Z'')),
             (''scaling_job_link'',
                JStr (getenv_default w ''GITHUB_SERVER_URL'' ''https://github.com'' @ ''/'' @
                      getenv_default w ''GITHUB_REPOSITORY'' '''' @ ''/actions/runs/'' @
                      getenv_default w ''GITHUB_RUN_ID'' ''''))]
      in JObj [(''properties'',
           JObj (case details of
                   None \<Rightarrow> properties
                 | Some d \<Rightarrow> if d \<noteq> [] then dict_update properties d else properties))])"

definition patch_request :: "reporter \<Rightarrow> string \<Rightarrow> string \<Rightarrow> json \<Rightarrow> request" where
  "patch_request self blueprint_id entity_identifier body =
     \<lparr>req_method = PATCH,
      req_url = port_base_url self @ ''/blueprints/'' @ blueprint_id @
                ''/entities/'' @ entity_identifier,
      req_headers = [(''Authorization'', access_token self),
                     (''Content-Type'', JStr ''application/json'')],
      req_params = [(''upsert'', ''true'')],
      req_json = Some body\<rparr>"

definition update_entity_status ::
    "world \<Rightarrow> reporter \<Rightarrow> string \<Rightarrow> string \<Rightarrow> string \<Rightarrow> (string \<times> json) list option
       \<Rightarrow> effects \<Rightarrow> (error + json) \<times> reporter \<times> effects" where
  "update_entity_status w self0 blueprint_id entity_identifier scaling_status details s0 =
     (let (auth, self, s1) =
            (if \<not> truthy (access_token self0) then authenticate w self0 s0
             else (Inr (access_token self0), self0, s0))
      in case auth of
           Inl e \<Rightarrow> (Inl e, self, s1)
         | Inr _ \<Rightarrow>
             (let body = entity_update w s1 scaling_status details;
                  s2 = py_print (Updating entity_identifier (port_status scaling_status)) s1;
                  (rep, s3) = send w (patch_request self blueprint_id entity_identifier body) s2
              in case rep of
                   Raised m \<Rightarrow> (Inl (RequestException m), self, s3)
                 | Responded resp \<Rightarrow>
                     if status_code resp \<notin> set [200, 201]
                     then (Inr (JObj []), self,
                           py_print (PortWarning (status_code resp) (resp_text resp)) s3)
                     else
                       (case response_json resp of
                          Inl e \<Rightarrow> (Inl e, self, s3)
                        | Inr result \<Rightarrow> (Inr result, self, py_print PortUpdated s3))))"

text \<open>
  \<open>main\<close> of the reporting script, returning the exit status of a run whose prints
  succeed (see \<open>py_print\<close>): the message for missing variables is printed outside the
  \<open>try\<close>, and the handler prints too, so a \<open>print\<close> that raised there would end the run
  with status 1. The reporter is local to \<open>main\<close>, so its final state is dropped.
\<close>

definition port_main :: "world \<Rightarrow> effects \<Rightarrow> int \<times> effects" where
  "port_main w s0 =
     (let port_client_id = env w ''PORT_CLIENT_ID'';
          port_client_secret = env w ''PORT_CLIENT_SECRET'';
          cluster_id = env w ''CLUSTER_ID'';
          scaling_status = getenv_default w ''SCALING_STATUS'' ''unknown'';
          blueprint_id = getenv_default w ''BLUEPRINT_ID'' ''spot_ocean_cluster'';
          missing_vars =
            (if unset port_client_id then [''PORT_CLIENT_ID''] else []) @
            (if unset port_client_secret then [''PORT_CLIENT_SECRET''] else []) @
            (if unset cluster_id then [''CLUSTER_ID''] else [])
      in if missing_vars \<noteq> [] then (0, py_print (PortSkipped missing_vars) s0)
         else
           (let reporter = PortStatusReporter (the port_client_id) (the port_client_secret);
                entity_identifier = the cluster_id @ ''-heartbeat'';
                details = Some
                  [(''workflow_run_id'', JStr (getenv_default w ''GITHUB_RUN_ID'' '''')),
                   (''workflow_name'', JStr (getenv_default w ''GITHUB_WORKFLOW'' '''')),
                   (''workflow_actor'', JStr (getenv_default w ''GITHUB_ACTOR'' ''''))]
            in case update_entity_status w reporter blueprint_id entity_identifier
                      scaling_status details s0 of
                 (Inl e, _, s1) \<Rightarrow> (0, py_print (PortError e) s1)
               | (Inr _, _, s1) \<Rightarrow> (0, py_print PortCompleted s1)))"

section \<open>Properties of the capacity scaler\<close>

subsection \<open>Effects of the helper steps\<close>

lemma sent_py_print [simp]: "sent (py_print l s) = sent s"
  by (simp add: py_print_def)

lemma stdout_py_print [simp]: "stdout (py_print l s) = stdout s @ [l]"
  by (simp add: py_print_def)

lemma sent_get_launch_spec_details:
  "sent (snd (get_launch_spec_details w self vng_id s)) = sent s @ [get_request self vng_id]"
  by (simp add: get_launch_spec_details_def send_def Let_def split: reply.splits)

text \<open>\<open>scale_vng\<close> issues the read and then the write, whatever the replies are.\<close>

lemma sent_scale_vng:
  "sent (snd (scale_vng w self cluster_id vng_id mn mx reason s)) =
     sent s @ [get_request self vng_id, put_request self vng_id mn mx]"
proof -
  obtain fetched s1 where f: "get_launch_spec_details w self vng_id s = (fetched, s1)"
    by (cases "get_launch_spec_details w self vng_id s")
  then have "sent s1 = sent s @ [get_request self vng_id]"
    using sent_get_launch_spec_details [of w self vng_id s] by simp
  then show ?thesis
    by (simp add: scale_vng_def f send_def Let_def split: sum.splits reply.splits prod.splits)
qed

text \<open>What \<open>scale_vng\<close> returns or raises is decided by the reply to the write alone.\<close>

lemma fst_scale_vng:
  "fst (scale_vng w self cluster_id vng_id mn mx reason s) =
     (case transport w (sent s @ [get_request self vng_id]) (put_request self vng_id mn mx) of
        Raised m \<Rightarrow> Inl (RequestException m)
      | Responded resp \<Rightarrow>
          bind_result
            (if status_code resp \<notin> set [200, 201] then raise_for_status resp else Inr ())
            (\<lambda>_. response_json resp))"
proof -
  obtain fetched s1 where f: "get_launch_spec_details w self vng_id s = (fetched, s1)"
    by (cases "get_launch_spec_details w self vng_id s")
  then have "sent s1 = sent s @ [get_request self vng_id]"
    using sent_get_launch_spec_details [of w self vng_id s] by simp
  then show ?thesis
    by (simp add: scale_vng_def f send_def bind_result_def Let_def
        split: sum.splits reply.splits prod.splits)
qed

subsection \<open>Validation of the capacity bounds\<close>

text \<open>
  C1. \<open>validate_scaling_parameters\<close> raises \<open>ValueError\<close> whenever \<open>min_capacity < 1\<close>,
  whatever \<open>max_capacity\<close> is; it raises \<open>ValueError\<close> whenever
  \<open>max_capacity < min_capacity\<close>; and it returns \<open>True\<close> for every pair with
  \<open>min_capacity \<ge> 1\<close> and \<open>max_capacity \<ge> min_capacity\<close>.
\<close>

theorem validate_scaling_parameters_bounds:
  "(min_capacity < 1 \<longrightarrow>
      (\<exists>e. validate_scaling_parameters self min_capacity max_capacity = Inl (ValueError e))) \<and>
   (max_capacity < min_capacity \<longrightarrow>
      (\<exists>e. validate_scaling_parameters self min_capacity max_capacity = Inl (ValueError e))) \<and>
   (1 \<le> min_capacity \<and> min_capacity \<le> max_capacity \<longrightarrow>
      validate_scaling_parameters self min_capacity max_capacity = Inr True)"
  by (simp add: validate_scaling_parameters_def)

theorem validate_scaling_parameters_bounds_witness:
  "(0::int) < 1 \<and> (2::int) < 5 \<and> (1::int) \<le> 3 \<and> (3::int) \<le> 10 \<and>
   (\<exists>e. validate_scaling_parameters (SpotOceanScaler ''t'' ''act-1'') 0 7 = Inl (ValueError e)) \<and>
   (\<exists>e. validate_scaling_parameters (SpotOceanScaler ''t'' ''act-1'') 5 2 = Inl (ValueError e)) \<and>
   validate_scaling_parameters (SpotOceanScaler ''t'' ''act-1'') 3 10 = Inr True"
  using validate_scaling_parameters_bounds [of 0 "SpotOceanScaler ''t'' ''act-1''" 7]
        validate_scaling_parameters_bounds [of 5 "SpotOceanScaler ''t'' ''act-1''" 2]
        validate_scaling_parameters_bounds [of 3 "SpotOceanScaler ''t'' ''act-1''" 10]
  by simp

subsection \<open>The update payload\<close>

text \<open>
  C2. For every valid pair (\<open>min_capacity \<ge> 1\<close>, \<open>max_capacity \<ge> min_capacity\<close>)
  validation succeeds, \<open>scale_vng\<close> issues the read request and then one write request,
  and the JSON body of that write request has the single key \<open>launchSpec\<close>, under it the
  single key \<open>resourceLimits\<close>, and under that exactly the two fields
  \<open>minInstanceCount\<close> and \<open>maxInstanceCount\<close> with the requested values: no other
  configuration field is in the payload.
\<close>

theorem scale_vng_payload_only_limits:
  assumes "1 \<le> min_capacity" and "min_capacity \<le> max_capacity"
  shows "validate_scaling_parameters self min_capacity max_capacity = Inr True \<and>
         (\<exists>put. sent (snd (scale_vng w self cluster_id vng_id min_capacity max_capacity reason s))
                  = sent s @ [get_request self vng_id, put] \<and>
                req_method put = PUT \<and>
                req_json put =
                  Some (JObj [(''launchSpec'',
                          JObj [(''resourceLimits'',
                            JObj [(''minInstanceCount'', JInt min_capacity),
                                  (''maxInstanceCount'', JInt max_capacity)])])]))"
  using assms
  by (simp add: validate_scaling_parameters_def sent_scale_vng put_request_def
      update_payload_def)

theorem scale_vng_payload_only_limits_witness:
  "(1::int) \<le> 3 \<and> (3::int) \<le> 10 \<and>
   (\<exists>put. sent (snd (scale_vng
              \<lparr>env = (\<lambda>_. None), transport = (\<lambda>_ _. Raised ''unreachable''),
               utcnow = (\<lambda>_. ''2024-01-01T00:00:00''), py_int = (\<lambda>_. None)\<rparr>
              (SpotOceanScaler ''t'' ''act-1'') '''' ''abc123'' 3 10 ''''
              \<lparr>sent = [], stdout = []\<rparr>))
            = [get_request (SpotOceanScaler ''t'' ''act-1'') ''abc123'', put] \<and>
          req_json put =
            Some (JObj [(''launchSpec'',
                    JObj [(''resourceLimits'',
                      JObj [(''minInstanceCount'', JInt 3),
                            (''maxInstanceCount'', JInt 10)])])]))"
  using scale_vng_payload_only_limits [of 3 10 "SpotOceanScaler ''t'' ''act-1''"
      "\<lparr>env = (\<lambda>_. None), transport = (\<lambda>_ _. Raised ''unreachable''),
        utcnow = (\<lambda>_. ''2024-01-01T00:00:00''), py_int = (\<lambda>_. None)\<rparr>"
      "''''" "''abc123''" "''''" "\<lparr>sent = [], stdout = []\<rparr>"]
  by auto

subsection \<open>A failed read does not change the outcome\<close>

text \<open>
  C4. Take two runs of \<open>scale_vng\<close> with the same arguments, one in which the read of the
  current configuration fails (\<open>get_launch_spec_details\<close> raises) and one in which it
  succeeds, the remote side answering the write in the same way in both. The run with
  the failed read still issues the write request, and it returns or raises exactly what
  the run with the successful read does.
\<close>

theorem scale_vng_fetch_failure_ignored:
  assumes "fst (get_launch_spec_details w self vng_id s) = Inl e"
      and "fst (get_launch_spec_details w' self vng_id s) = Inr current"
      and "transport w (sent s @ [get_request self vng_id])
             (put_request self vng_id min_capacity max_capacity) =
           transport w' (sent s @ [get_request self vng_id])
             (put_request self vng_id min_capacity max_capacity)"
  shows "sent (snd (scale_vng w self cluster_id vng_id min_capacity max_capacity reason s)) =
           sent s @ [get_request self vng_id,
                     put_request self vng_id min_capacity max_capacity] \<and>
         fst (scale_vng w self cluster_id vng_id min_capacity max_capacity reason s) =
         fst (scale_vng w' self cluster_id vng_id min_capacity max_capacity reason s)"
  using assms(3) by (simp add: sent_scale_vng fst_scale_vng)

theorem scale_vng_fetch_failure_ignored_witness:
  "fst (get_launch_spec_details
          \<lparr>env = (\<lambda>_. None),
           transport = (\<lambda>_ r. if req_method r = GET then Raised ''connection refused''
                        else Responded \<lparr>status_code = 200, resp_text = ''{}'',
                                        resp_json = Some (JObj [])\<rparr>),
           utcnow = (\<lambda>_. ''2024-01-01T00:00:00''), py_int = (\<lambda>_. None)\<rparr>
          (SpotOceanScaler ''t'' ''act-1'') ''abc123'' \<lparr>sent = [], stdout = []\<rparr>)
     = Inl (RequestException ''connection refused'') \<and>
   fst (get_launch_spec_details
          \<lparr>env = (\<lambda>_. None),
           transport = (\<lambda>_ r. Responded \<lparr>status_code = 200, resp_text = ''{}'',
                                        resp_json = Some (JObj [])\<rparr>),
           utcnow = (\<lambda>_. ''2024-01-01T00:00:00''), py_int = (\<lambda>_. None)\<rparr>
          (SpotOceanScaler ''t'' ''act-1'') ''abc123'' \<lparr>sent = [], stdout = []\<rparr>)
     = Inr (JObj []) \<and>
   fst (scale_vng
          \<lparr>env = (\<lambda>_. None),
           transport = (\<lambda>_ r. if req_method r = GET then Raised ''connection refused''
                        else Responded \<lparr>status_code = 200, resp_text = ''{}'',
                                        resp_json = Some (JObj [])\<rparr>),
           utcnow = (\<lambda>_. ''2024-01-01T00:00:00''), py_int = (\<lambda>_. None)\<rparr>
          (SpotOceanScaler ''t'' ''act-1'') '''' ''abc123'' 3 10 '''' \<lparr>sent = [], stdout = []\<rparr>)
     = fst (scale_vng
          \<lparr>env = (\<lambda>_. None),
           transport = (\<lambda>_ r. Responded \<lparr>status_code = 200, resp_text = ''{}'',
                                        resp_json = Some (JObj [])\<rparr>),
           utcnow = (\<lambda>_. ''2024-01-01T00:00:00''), py_int = (\<lambda>_. None)\<rparr>
          (SpotOceanScaler ''t'' ''act-1'') '''' ''abc123'' 3 10 '''' \<lparr>sent = [], stdout = []\<rparr>)"
proof -
  let ?w = "\<lparr>env = (\<lambda>_. None),
           transport = (\<lambda>_ r. if req_method r = GET then Raised ''connection refused''
                        else Responded \<lparr>status_code = 200, resp_text = ''{}'',
                                        resp_json = Some (JObj [])\<rparr>),
           utcnow = (\<lambda>_. ''2024-01-01T00:00:00''), py_int = (\<lambda>_. None)\<rparr>"
  let ?w' = "\<lparr>env = (\<lambda>_. None),
           transport = (\<lambda>_ r. Responded \<lparr>status_code = 200, resp_text = ''{}'',
                                        resp_json = Some (JObj [])\<rparr>),
           utcnow = (\<lambda>_. ''2024-01-01T00:00:00''), py_int = (\<lambda>_. None)\<rparr>"
  let ?self = "SpotOceanScaler ''t'' ''act-1''"
  let ?s = "\<lparr>sent = [], stdout = []\<rparr>"
  have h1: "fst (get_launch_spec_details ?w ?self ''abc123'' ?s)
              = Inl (RequestException ''connection refused'')"
    by (simp add: get_launch_spec_details_def send_def get_request_def Let_def)
  have h2: "fst (get_launch_spec_details ?w' ?self ''abc123'' ?s) = Inr (JObj [])"
    by (simp add: get_launch_spec_details_def send_def get_request_def Let_def
        raise_for_status_def response_json_def bind_result_def)
  have h3: "transport ?w (sent ?s @ [get_request ?self ''abc123''])
              (put_request ?self ''abc123'' 3 10) =
            transport ?w' (sent ?s @ [get_request ?self ''abc123''])
              (put_request ?self ''abc123'' 3 10)"
    by (simp add: put_request_def)
  show ?thesis
    using h1 h2 scale_vng_fetch_failure_ignored [OF h1 h2 h3, of "''''" "''''"] by simp
qed

subsection \<open>Invalid bounds stop the run before any request\<close>

text \<open>
  C6. When every required variable is set and the two capacities parse to an invalid
  pair (\<open>min_capacity < 1\<close> or \<open>max_capacity < min_capacity\<close>), \<open>main\<close> fails with the
  \<open>ValueError\<close> of the validation: it exits with status 1 and has issued no request,
  neither the read nor the write.
\<close>

theorem scale_main_invalid_bounds_no_request:
  assumes "env w ''SPOT_TOKEN'' = Some tok" and "tok \<noteq> []"
      and "env w ''SPOT_ACCOUNT_ID'' = Some acct" and "acct \<noteq> []"
      and "env w ''VNG_ID'' = Some vng" and "vng \<noteq> []"
      and "env w ''MIN_CAPACITY'' = Some mins" and "mins \<noteq> []"
      and "env w ''MAX_CAPACITY'' = Some maxs" and "maxs \<noteq> []"
      and "py_int w mins = Some min_capacity"
      and "py_int w maxs = Some max_capacity"
      and "min_capacity < 1 \<or> max_capacity < min_capacity"
  shows "(\<exists>e. scale_main w s =
            (1, s\<lparr>stdout := stdout s @ [Validating, ScalingFailed (ValueError e)]\<rparr>)) \<and>
         sent (snd (scale_main w s)) = sent s"
  using assms
  by (auto simp add: scale_main_def unset_def validate_scaling_parameters_def Let_def
      py_print_def)

theorem scale_main_invalid_bounds_no_request_witness:
  "scale_main
     \<lparr>env = [''SPOT_TOKEN'' \<mapsto> ''t'', ''SPOT_ACCOUNT_ID'' \<mapsto> ''act-1'',
             ''VNG_ID'' \<mapsto> ''ols-1'', ''MIN_CAPACITY'' \<mapsto> ''5'', ''MAX_CAPACITY'' \<mapsto> ''2''],
      transport = (\<lambda>_ _. Raised ''unreachable''),
      utcnow = (\<lambda>_. ''2024-01-01T00:00:00''),
      py_int = (\<lambda>x. if x = ''5'' then Some 5 else if x = ''2'' then Some 2 else None)\<rparr>
     \<lparr>sent = [], stdout = []\<rparr>
   = (1, \<lparr>sent = [], stdout = [Validating, ScalingFailed (ValueError (MaxBelowMin 2 5))]\<rparr>)"
proof -
  let ?w = "\<lparr>env = [''SPOT_TOKEN'' \<mapsto> ''t'', ''SPOT_ACCOUNT_ID'' \<mapsto> ''act-1'',
             ''VNG_ID'' \<mapsto> ''ols-1'', ''MIN_CAPACITY'' \<mapsto> ''5'', ''MAX_CAPACITY'' \<mapsto> ''2''],
      transport = (\<lambda>_ _. Raised ''unreachable''),
      utcnow = (\<lambda>_. ''2024-01-01T00:00:00''),
      py_int = (\<lambda>x. if x = ''5'' then Some (5::int) else if x = ''2'' then Some 2 else None)\<rparr>"
  have "(\<exists>e. scale_main ?w \<lparr>sent = [], stdout = []\<rparr> =
            (1, \<lparr>sent = [], stdout = []\<rparr>
                  \<lparr>stdout := stdout \<lparr>sent = [], stdout = []\<rparr>
                     @ [Validating, ScalingFailed (ValueError e)]\<rparr>)) \<and>
         sent (snd (scale_main ?w \<lparr>sent = [], stdout = []\<rparr>)) = sent \<lparr>sent = [], stdout = []\<rparr>"
    by (rule scale_main_invalid_bounds_no_request
          [of ?w "''t''" "''act-1''" "''ols-1''" "''5''" "''2''" 5 2]) simp_all
  then show ?thesis
    by (simp add: scale_main_def unset_def validate_scaling_parameters_def Let_def
      py_print_def)
qed

subsection \<open>Statuses of the write that are neither success nor an HTTP error\<close>

lemma scale_vng_http_error:
  assumes "transport w (sent s @ [get_request self vng_id])
             (put_request self vng_id mn mx) = Responded resp"
      and "400 \<le> status_code resp" and "status_code resp < 600"
  shows "fst (scale_vng w self cluster_id vng_id mn mx reason s) = Inl (HTTPError resp)"
  using assms by (auto simp add: fst_scale_vng raise_for_status_def bind_result_def)

lemma scale_vng_other_status:
  assumes "transport w (sent s @ [get_request self vng_id])
             (put_request self vng_id mn mx) = Responded resp"
      and "status_code resp < 400 \<or> 600 \<le> status_code resp"
      and "resp_json resp = Some result"
  shows "fst (scale_vng w self cluster_id vng_id mn mx reason s) = Inr result"
  using assms
  by (auto simp add: fst_scale_vng raise_for_status_def bind_result_def response_json_def)

text \<open>
  C5. The write is answered with status 202 and the JSON body \<open>{}\<close>. The status is
  outside \<open>[200, 201]\<close>, so \<open>scale_vng\<close> prints the error lines and calls
  \<open>raise_for_status\<close>; that call raises nothing below 400, and \<open>scale_vng\<close> goes on to
  print the success line and to return the parsed body. \<open>main\<close> then exits with
  status 0.
\<close>

theorem scale_vng_status_202_returns:
  "scale_vng
     \<lparr>env = (\<lambda>_. None),
      transport = (\<lambda>_ r. Responded \<lparr>status_code = (if req_method r = PUT then 202 else 200),
                                     resp_text = ''{}'', resp_json = Some (JObj [])\<rparr>),
      utcnow = (\<lambda>_. ''2024-01-01T00:00:00''), py_int = (\<lambda>_. None)\<rparr>
     (SpotOceanScaler ''t'' ''act-1'') '''' ''ols-1'' 3 10 '''' \<lparr>sent = [], stdout = []\<rparr>
   = (Inr (JObj []),
      \<lparr>sent = [get_request (SpotOceanScaler ''t'' ''act-1'') ''ols-1'',
               put_request (SpotOceanScaler ''t'' ''act-1'') ''ols-1'' 3 10],
       stdout = [Fetching ''ols-1'', Scaling ''ols-1'' 3 10, WriteError 202 ''{}'',
                 Submitted (JObj [])]\<rparr>) \<and>
   fst (scale_main
     \<lparr>env = [''SPOT_TOKEN'' \<mapsto> ''t'', ''SPOT_ACCOUNT_ID'' \<mapsto> ''act-1'',
             ''VNG_ID'' \<mapsto> ''ols-1'', ''MIN_CAPACITY'' \<mapsto> ''3'', ''MAX_CAPACITY'' \<mapsto> ''10''],
      transport = (\<lambda>_ r. Responded \<lparr>status_code = (if req_method r = PUT then 202 else 200),
                                     resp_text = ''{}'', resp_json = Some (JObj [])\<rparr>),
      utcnow = (\<lambda>_. ''2024-01-01T00:00:00''),
      py_int = (\<lambda>x. if x = ''3'' then Some 3 else if x = ''10'' then Some 10 else None)\<rparr>
     \<lparr>sent = [], stdout = []\<rparr>) = 0"
  by (simp add: scale_main_def scale_vng_def get_launch_spec_details_def send_def
      get_request_def put_request_def raise_for_status_def response_json_def
      bind_result_def unset_def validate_scaling_parameters_def getenv_default_def
      SpotOceanScaler_def py_print_def Let_def)

subsection \<open>The two shapes of the configuration read\<close>

text \<open>
  C9. Let the read be answered with a status that \<open>raise_for_status\<close> accepts and a
  body that is a JSON object. If the object has the key \<open>response\<close>, holding an object
  whose \<open>items\<close> is a non-empty list, \<open>get_launch_spec_details\<close> returns the first item
  of that list. If the object has no key \<open>response\<close>, it returns the object as it is.
\<close>

theorem get_launch_spec_details_shapes:
  assumes "transport w (sent s) (get_request self vng_id) = Responded resp"
      and "status_code resp < 400 \<or> 600 \<le> status_code resp"
      and "resp_json resp = Some (JObj kvs)"
  shows "(map_of kvs ''response'' = Some (JObj r) \<and>
          map_of r ''items'' = Some (JList (item # rest)) \<longrightarrow>
            fst (get_launch_spec_details w self vng_id s) = Inr item) \<and>
         (''response'' \<notin> fst ` set kvs \<longrightarrow>
            fst (get_launch_spec_details w self vng_id s) = Inr (JObj kvs))"
  using assms
  by (auto simp add: get_launch_spec_details_def send_def Let_def raise_for_status_def
      response_json_def bind_result_def dest: map_of_SomeD weak_map_of_SomeI
      intro: rev_image_eqI)

theorem get_launch_spec_details_shapes_witness:
  "fst (get_launch_spec_details
          \<lparr>env = (\<lambda>_. None),
           transport = (\<lambda>_ _. Responded
              \<lparr>status_code = 200, resp_text = ''enveloped'',
               resp_json = Some (JObj [(''response'',
                 JObj [(''items'', JList [JObj [(''id'', JStr ''ols-1'')], JNull])])])\<rparr>),
           utcnow = (\<lambda>_. ''2024-01-01T00:00:00''), py_int = (\<lambda>_. None)\<rparr>
          (SpotOceanScaler ''t'' ''act-1'') ''ols-1'' \<lparr>sent = [], stdout = []\<rparr>)
     = Inr (JObj [(''id'', JStr ''ols-1'')]) \<and>
   fst (get_launch_spec_details
          \<lparr>env = (\<lambda>_. None),
           transport = (\<lambda>_ _. Responded
              \<lparr>status_code = 200, resp_text = ''bare'',
               resp_json = Some (JObj [(''id'', JStr ''ols-1'')])\<rparr>),
           utcnow = (\<lambda>_. ''2024-01-01T00:00:00''), py_int = (\<lambda>_. None)\<rparr>
          (SpotOceanScaler ''t'' ''act-1'') ''ols-1'' \<lparr>sent = [], stdout = []\<rparr>)
     = Inr (JObj [(''id'', JStr ''ols-1'')])"
proof -
  let ?enveloped = "\<lparr>status_code = 200, resp_text = ''enveloped'',
               resp_json = Some (JObj [(''response'',
                 JObj [(''items'', JList [JObj [(''id'', JStr ''ols-1'')], JNull])])])\<rparr>"
  let ?bare = "\<lparr>status_code = 200, resp_text = ''bare'',
               resp_json = Some (JObj [(''id'', JStr ''ols-1'')])\<rparr>"
  let ?w1 = "\<lparr>env = (\<lambda>_. None), transport = (\<lambda>_ _. Responded ?enveloped),
           utcnow = (\<lambda>_. ''2024-01-01T00:00:00''), py_int = (\<lambda>_. None)\<rparr>"
  let ?w2 = "\<lparr>env = (\<lambda>_. None), transport = (\<lambda>_ _. Responded ?bare),
           utcnow = (\<lambda>_. ''2024-01-01T00:00:00''), py_int = (\<lambda>_. None)\<rparr>"
  let ?self = "SpotOceanScaler ''t'' ''act-1''"
  let ?s = "\<lparr>sent = [], stdout = []\<rparr>"
  have a: "transport ?w1 (sent ?s) (get_request ?self ''ols-1'') = Responded ?enveloped"
    by simp
  have b: "transport ?w2 (sent ?s) (get_request ?self ''ols-1'') = Responded ?bare"
    by simp
  have c: "status_code ?enveloped < 400 \<or> 600 \<le> status_code ?enveloped"
    by simp
  have d: "status_code ?bare < 400 \<or> 600 \<le> status_code ?bare"
    by simp
  have e: "resp_json ?enveloped = Some (JObj [(''response'',
                 JObj [(''items'', JList [JObj [(''id'', JStr ''ols-1'')], JNull])])])"
    by simp
  have f: "resp_json ?bare = Some (JObj [(''id'', JStr ''ols-1'')])"
    by simp
  show ?thesis
    using get_launch_spec_details_shapes [OF a c e,
            of "[(''items'', JList [JObj [(''id'', JStr ''ols-1'')], JNull])]"
               "JObj [(''id'', JStr ''ols-1'')]" "[JNull]"]
          get_launch_spec_details_shapes [OF b d f]
    by simp
qed

section \<open>Properties of the status reporter\<close>

subsection \<open>The status mapping\<close>







subsection \<open>Failures while reporting\<close>

lemma req_method_auth_request [simp]: "req_method (auth_request self) = POST"
  by (simp add: auth_request_def)

lemma req_method_patch_request [simp]:
  "req_method (patch_request self blueprint_id entity_identifier body) = PATCH"
  by (simp add: patch_request_def)

text \<open>\<open>authenticate\<close> either raises and leaves the reporter alone, or stores the token.\<close>

lemma authenticate_cases:
  "(\<exists>e. authenticate w self s =
          (Inl e, self, s\<lparr>sent := sent s @ [auth_request self]\<rparr>)) \<or>
   (\<exists>tok. authenticate w self s =
          (Inr tok, self\<lparr>access_token := tok\<rparr>,
           py_print Authenticated (s\<lparr>sent := sent s @ [auth_request self]\<rparr>)))"
  by (simp add: authenticate_def send_def split: reply.splits sum.splits)

text \<open>The call on a reporter that holds a token: one PATCH, no authentication.\<close>

lemma update_entity_status_with_token:
  assumes "truthy (access_token self)"
  shows "update_entity_status w self blueprint_id entity_identifier scaling_status details s =
     (let rq = patch_request self blueprint_id entity_identifier
                 (entity_update w s scaling_status details);
          s3 = (py_print (Updating entity_identifier (port_status scaling_status)) s)
                 \<lparr>sent := sent s @ [rq]\<rparr>
      in case transport w (sent s) rq of
           Raised m \<Rightarrow> (Inl (RequestException m), self, s3)
         | Responded resp \<Rightarrow>
             if status_code resp \<notin> set [200, 201]
             then (Inr (JObj []), self,
                   py_print (PortWarning (status_code resp) (resp_text resp)) s3)
             else (case response_json resp of
                     Inl e \<Rightarrow> (Inl e, self, s3)
                   | Inr result \<Rightarrow> (Inr result, self, py_print PortUpdated s3)))"
  using assms
  by (simp add: update_entity_status_def send_def Let_def entity_update_def
      split: reply.splits sum.splits)

text \<open>The call on a reporter without a token, when authentication raises.\<close>

lemma update_entity_status_auth_fails:
  assumes "\<not> truthy (access_token self)"
      and "authenticate w self s = (Inl e, self1, s1)"
  shows "update_entity_status w self blueprint_id entity_identifier scaling_status details s
           = (Inl e, self1, s1)"
  using assms by (simp add: update_entity_status_def)

text \<open>
  The call on a reporter without a token, when authentication returns: it goes on as a
  call on the reporter that holds the new token would, whatever that token is.
\<close>

lemma update_entity_status_auth_returns:
  assumes "\<not> truthy (access_token self)"
      and "authenticate w self s = (Inr tok, self1, s1)"
  shows "update_entity_status w self blueprint_id entity_identifier scaling_status details s =
     (let rq = patch_request self1 blueprint_id entity_identifier
                 (entity_update w s1 scaling_status details);
          s3 = (py_print (Updating entity_identifier (port_status scaling_status)) s1)
                 \<lparr>sent := sent s1 @ [rq]\<rparr>
      in case transport w (sent s1) rq of
           Raised m \<Rightarrow> (Inl (RequestException m), self1, s3)
         | Responded resp \<Rightarrow>
             if status_code resp \<notin> set [200, 201]
             then (Inr (JObj []), self1,
                   py_print (PortWarning (status_code resp) (resp_text resp)) s3)
             else (case response_json resp of
                     Inl e \<Rightarrow> (Inl e, self1, s3)
                   | Inr result \<Rightarrow> (Inr result, self1, py_print PortUpdated s3)))"
  using assms
  by (simp add: update_entity_status_def send_def Let_def entity_update_def
      split: reply.splits sum.splits)

text \<open>What \<open>authenticate\<close> raises when the POST fails or is answered with an error status.\<close>

lemma authenticate_raised:
  assumes "transport w (sent s) (auth_request self) = Raised m"
  shows "fst (authenticate w self s) = Inl (RequestException m)"
  using assms by (simp add: authenticate_def send_def)

lemma authenticate_http_error:
  assumes "transport w (sent s) (auth_request self) = Responded resp"
      and "400 \<le> status_code resp" and "status_code resp < 600"
  shows "fst (authenticate w self s) = Inl (HTTPError resp)"
  using assms
  by (simp add: authenticate_def send_def raise_for_status_def bind_result_def)

text \<open>
  C3, as it is on the code. In \<open>update_entity_status\<close> one failure is handled: when the
  PATCH, the last request of the call, is answered with a status other than 200 and
  201, the call prints the warning with that status and body and returns the empty
  dict. Nothing else is caught there. When the PATCH cannot be sent, the call raises the
  exception of the transport; when the PATCH is answered with 200 or 201 and a body that
  is not JSON, the call raises the decoding error; and on a reporter without a token,
  whatever \<open>authenticate\<close> raises, the call raises: the exception of the transport when
  the POST cannot be sent, the HTTP error when the POST is answered with a status from
  400 up to 599.
\<close>

theorem update_entity_status_failures:
  assumes call: "update_entity_status w self blueprint_id entity_identifier scaling_status
                   details s = (res, self', s')"
  shows "(req_method (last (sent s')) = PATCH \<and>
          transport w (butlast (sent s')) (last (sent s')) = Responded resp \<and>
          status_code resp \<notin> {200, 201} \<longrightarrow>
            res = Inr (JObj []) \<and>
            last (stdout s') = PortWarning (status_code resp) (resp_text resp)) \<and>
         (req_method (last (sent s')) = PATCH \<and>
          transport w (butlast (sent s')) (last (sent s')) = Raised m \<longrightarrow>
            res = Inl (RequestException m)) \<and>
         (req_method (last (sent s')) = PATCH \<and>
          transport w (butlast (sent s')) (last (sent s')) = Responded resp \<and>
          status_code resp \<in> {200, 201} \<and> resp_json resp = None \<longrightarrow>
            res = Inl JSONDecodeError) \<and>
         (\<not> truthy (access_token self) \<and> fst (authenticate w self s) = Inl e \<longrightarrow>
            res = Inl e) \<and>
         (\<not> truthy (access_token self) \<and>
          transport w (sent s) (auth_request self) = Raised m \<longrightarrow>
            res = Inl (RequestException m)) \<and>
         (\<not> truthy (access_token self) \<and>
          transport w (sent s) (auth_request self) = Responded resp \<and>
          400 \<le> status_code resp \<and> status_code resp < 600 \<longrightarrow>
            res = Inl (HTTPError resp))"
proof -
  have patch_step:
    "(transport w (butlast (sent s')) (last (sent s')) = Responded resp \<and>
      status_code resp \<notin> {200, 201} \<longrightarrow>
        res = Inr (JObj []) \<and>
        last (stdout s') = PortWarning (status_code resp) (resp_text resp)) \<and>
     (transport w (butlast (sent s')) (last (sent s')) = Raised m \<longrightarrow>
        res = Inl (RequestException m)) \<and>
     (transport w (butlast (sent s')) (last (sent s')) = Responded resp \<and>
      status_code resp \<in> {200, 201} \<and> resp_json resp = None \<longrightarrow>
        res = Inl JSONDecodeError)"
    if patch: "req_method (last (sent s')) = PATCH"
  proof (cases "truthy (access_token self)")
    case True
    show ?thesis
      using call
        update_entity_status_with_token [OF True, of w blueprint_id entity_identifier
          scaling_status details s]
      by (auto simp add: Let_def response_json_def split: reply.splits if_splits sum.splits)
  next
    case False
    consider (raised) e' where
        "authenticate w self s = (Inl e', self, s\<lparr>sent := sent s @ [auth_request self]\<rparr>)"
      | (returned) tok where
        "authenticate w self s =
           (Inr tok, self\<lparr>access_token := tok\<rparr>,
            py_print Authenticated (s\<lparr>sent := sent s @ [auth_request self]\<rparr>))"
      using authenticate_cases [of w self s] by blast
    then show ?thesis
    proof cases
      case raised
      have "s' = s\<lparr>sent := sent s @ [auth_request self]\<rparr>"
        using call update_entity_status_auth_fails [OF False raised, of blueprint_id
            entity_identifier scaling_status details]
        by auto
      then show ?thesis
        using patch by simp
    next
      case returned
      show ?thesis
        using call
          update_entity_status_auth_returns [OF False returned, of blueprint_id
            entity_identifier scaling_status details]
        by (auto simp add: Let_def butlast_append response_json_def
            split: reply.splits if_splits sum.splits)
    qed
  qed
  have auth_step: "res = Inl e"
    if no_tok: "\<not> truthy (access_token self)"
      and failed: "fst (authenticate w self s) = Inl e" for e
  proof -
    obtain self1 s1 where a: "authenticate w self s = (Inl e, self1, s1)"
      using failed by (cases "authenticate w self s") auto
    show ?thesis
      using call update_entity_status_auth_fails [OF no_tok a, of blueprint_id
          entity_identifier scaling_status details]
      by simp
  qed
  show ?thesis
    using patch_step auth_step [of e]
      auth_step [of "RequestException m"] authenticate_raised [of w s self m]
      auth_step [of "HTTPError resp"] authenticate_http_error [of w s self resp]
    by blast
qed

theorem update_entity_status_failures_witness:
  "fst (update_entity_status
     \<lparr>env = (\<lambda>_. None),
      transport = (\<lambda>_ _. Responded \<lparr>status_code = 500, resp_text = ''boom'',
                                     resp_json = None\<rparr>),
      utcnow = (\<lambda>_. ''2024-01-01T00:00:00''), py_int = (\<lambda>_. None)\<rparr>
     ((PortStatusReporter ''id'' ''secret'')\<lparr>access_token := JStr ''tk''\<rparr>)
     ''spot_ocean_cluster'' ''o-1-heartbeat'' ''success'' None \<lparr>sent = [], stdout = []\<rparr>)
   = Inr (JObj []) \<and>
   fst (update_entity_status
     \<lparr>env = (\<lambda>_. None), transport = (\<lambda>_ _. Raised ''connection refused''),
      utcnow = (\<lambda>_. ''2024-01-01T00:00:00''), py_int = (\<lambda>_. None)\<rparr>
     ((PortStatusReporter ''id'' ''secret'')\<lparr>access_token := JStr ''tk''\<rparr>)
     ''spot_ocean_cluster'' ''o-1-heartbeat'' ''success'' None \<lparr>sent = [], stdout = []\<rparr>)
   = Inl (RequestException ''connection refused'') \<and>
   fst (update_entity_status
     \<lparr>env = (\<lambda>_. None),
      transport = (\<lambda>_ _. Responded \<lparr>status_code = 200, resp_text = ''<html>'',
                                     resp_json = None\<rparr>),
      utcnow = (\<lambda>_. ''2024-01-01T00:00:00''), py_int = (\<lambda>_. None)\<rparr>
     ((PortStatusReporter ''id'' ''secret'')\<lparr>access_token := JStr ''tk''\<rparr>)
     ''spot_ocean_cluster'' ''o-1-heartbeat'' ''success'' None \<lparr>sent = [], stdout = []\<rparr>)
   = Inl JSONDecodeError \<and>
   fst (update_entity_status
     \<lparr>env = (\<lambda>_. None), transport = (\<lambda>_ _. Raised ''connection refused''),
      utcnow = (\<lambda>_. ''2024-01-01T00:00:00''), py_int = (\<lambda>_. None)\<rparr>
     (PortStatusReporter ''id'' ''secret'')
     ''spot_ocean_cluster'' ''o-1-heartbeat'' ''success'' None \<lparr>sent = [], stdout = []\<rparr>)
   = Inl (RequestException ''connection refused'') \<and>
   fst (update_entity_status
     \<lparr>env = (\<lambda>_. None),
      transport = (\<lambda>_ _. Responded \<lparr>status_code = 500, resp_text = ''boom'',
                                     resp_json = None\<rparr>),
      utcnow = (\<lambda>_. ''2024-01-01T00:00:00''), py_int = (\<lambda>_. None)\<rparr>
     (PortStatusReporter ''id'' ''secret'')
     ''spot_ocean_cluster'' ''o-1-heartbeat'' ''success'' None \<lparr>sent = [], stdout = []\<rparr>)
   = Inl (HTTPError \<lparr>status_code = 500, resp_text = ''boom'', resp_json = None\<rparr>)"
proof -
  let ?r500 = "\<lparr>status_code = 500, resp_text = ''boom'', resp_json = None\<rparr>"
  let ?r200 = "\<lparr>status_code = 200, resp_text = ''<html>'', resp_json = None\<rparr>"
  let ?w500 = "\<lparr>env = (\<lambda>_. None), transport = (\<lambda>_ _. Responded ?r500),
      utcnow = (\<lambda>_. ''2024-01-01T00:00:00''), py_int = (\<lambda>_. None)\<rparr>"
  let ?w200 = "\<lparr>env = (\<lambda>_. None), transport = (\<lambda>_ _. Responded ?r200),
      utcnow = (\<lambda>_. ''2024-01-01T00:00:00''), py_int = (\<lambda>_. None)\<rparr>"
  let ?down = "\<lparr>env = (\<lambda>_. None), transport = (\<lambda>_ _. Raised ''connection refused''),
      utcnow = (\<lambda>_. ''2024-01-01T00:00:00''), py_int = (\<lambda>_. None)\<rparr>"
  let ?new = "PortStatusReporter ''id'' ''secret''"
  let ?held = "?new\<lparr>access_token := JStr ''tk''\<rparr>"
  let ?s = "\<lparr>sent = [], stdout = []\<rparr>"
  let ?call = "\<lambda>w self. update_entity_status w self ''spot_ocean_cluster''
                 ''o-1-heartbeat'' ''success'' None ?s"
  let ?rq = "patch_request ?held ''spot_ocean_cluster'' ''o-1-heartbeat''
               (entity_update ?w500 ?s ''success'' None)"
  have held: "truthy (access_token ?held)"
    by simp
  have fresh: "\<not> truthy (access_token ?new)"
    by (simp add: PortStatusReporter_def)

  have sent_held: "sent (snd (snd (?call w ?held))) = [patch_request ?held
        ''spot_ocean_cluster'' ''o-1-heartbeat'' (entity_update w ?s ''success'' None)]" for w
    by (simp add: update_entity_status_with_token [OF held] Let_def
        split: reply.splits sum.splits)

  have answered_500: "fst (?call ?w500 ?held) = Inr (JObj [])"
  proof -
    have "req_method (last (sent (snd (snd (?call ?w500 ?held))))) = PATCH \<and>
          transport ?w500 (butlast (sent (snd (snd (?call ?w500 ?held)))))
            (last (sent (snd (snd (?call ?w500 ?held))))) = Responded ?r500 \<and>
          status_code ?r500 \<notin> {200, 201}"
      by (simp add: sent_held)
    then show ?thesis
      using update_entity_status_failures
        [of ?w500 ?held "''spot_ocean_cluster''" "''o-1-heartbeat''" "''success''" None ?s
            "fst (?call ?w500 ?held)" "fst (snd (?call ?w500 ?held))"
            "snd (snd (?call ?w500 ?held))" ?r500]
      by simp
  qed

  have patch_raised: "fst (?call ?down ?held) = Inl (RequestException ''connection refused'')"
  proof -
    have "req_method (last (sent (snd (snd (?call ?down ?held))))) = PATCH \<and>
          transport ?down (butlast (sent (snd (snd (?call ?down ?held)))))
            (last (sent (snd (snd (?call ?down ?held))))) = Raised ''connection refused''"
      by (simp add: sent_held)
    then show ?thesis
      using update_entity_status_failures
        [of ?down ?held "''spot_ocean_cluster''" "''o-1-heartbeat''" "''success''" None ?s
            "fst (?call ?down ?held)" "fst (snd (?call ?down ?held))"
            "snd (snd (?call ?down ?held))" _ "''connection refused''"]
      by simp
  qed

  have unparsable: "fst (?call ?w200 ?held) = Inl JSONDecodeError"
  proof -
    have "req_method (last (sent (snd (snd (?call ?w200 ?held))))) = PATCH \<and>
          transport ?w200 (butlast (sent (snd (snd (?call ?w200 ?held)))))
            (last (sent (snd (snd (?call ?w200 ?held))))) = Responded ?r200 \<and>
          status_code ?r200 \<in> {200, 201} \<and> resp_json ?r200 = None"
      by (simp add: sent_held)
    then show ?thesis
      using update_entity_status_failures
        [of ?w200 ?held "''spot_ocean_cluster''" "''o-1-heartbeat''" "''success''" None ?s
            "fst (?call ?w200 ?held)" "fst (snd (?call ?w200 ?held))"
            "snd (snd (?call ?w200 ?held))" ?r200]
      by simp
  qed

  have auth_raised: "fst (?call ?down ?new) = Inl (RequestException ''connection refused'')"
  proof -
    have "\<not> truthy (access_token ?new) \<and>
          transport ?down (sent ?s) (auth_request ?new) = Raised ''connection refused''"
      using fresh by simp
    then show ?thesis
      using update_entity_status_failures
        [of ?down ?new "''spot_ocean_cluster''" "''o-1-heartbeat''" "''success''" None ?s
            "fst (?call ?down ?new)" "fst (snd (?call ?down ?new))"
            "snd (snd (?call ?down ?new))" _ "''connection refused''"]
      by simp
  qed

  have auth_refused: "fst (?call ?w500 ?new) = Inl (HTTPError ?r500)"
  proof -
    have "\<not> truthy (access_token ?new) \<and>
          transport ?w500 (sent ?s) (auth_request ?new) = Responded ?r500 \<and>
          400 \<le> status_code ?r500 \<and> status_code ?r500 < 600"
      using fresh by simp
    then show ?thesis
      using update_entity_status_failures
        [of ?w500 ?new "''spot_ocean_cluster''" "''o-1-heartbeat''" "''success''" None ?s
            "fst (?call ?w500 ?new)" "fst (snd (?call ?w500 ?new))"
            "snd (snd (?call ?w500 ?new))" ?r500]
      by simp
  qed

  show ?thesis
    using answered_500 patch_raised unparsable auth_raised auth_refused by simp
qed

text \<open>
  C3, as the claim states it, fails. With a token already held, a transport failure of
  the PATCH leaves \<open>update_entity_status\<close> as an exception; and without a token, a 401
  answer to the authentication does too.
\<close>

theorem update_entity_status_raises:
  "fst (update_entity_status
     \<lparr>env = (\<lambda>_. None), transport = (\<lambda>_ _. Raised ''connection refused''),
      utcnow = (\<lambda>_. ''2024-01-01T00:00:00''), py_int = (\<lambda>_. None)\<rparr>
     ((PortStatusReporter ''id'' ''secret'')\<lparr>access_token := JStr ''tk''\<rparr>)
     ''spot_ocean_cluster'' ''o-1-heartbeat'' ''success'' None \<lparr>sent = [], stdout = []\<rparr>)
   = Inl (RequestException ''connection refused'') \<and>
   fst (update_entity_status
     \<lparr>env = (\<lambda>_. None),
      transport = (\<lambda>_ _. Responded \<lparr>status_code = 401, resp_text = ''denied'',
                                     resp_json = None\<rparr>),
      utcnow = (\<lambda>_. ''2024-01-01T00:00:00''), py_int = (\<lambda>_. None)\<rparr>
     (PortStatusReporter ''id'' ''secret'')
     ''spot_ocean_cluster'' ''o-1-heartbeat'' ''success'' None \<lparr>sent = [], stdout = []\<rparr>)
   = Inl (HTTPError \<lparr>status_code = 401, resp_text = ''denied'', resp_json = None\<rparr>)"
  by (simp add: update_entity_status_def authenticate_def PortStatusReporter_def send_def
      raise_for_status_def bind_result_def Let_def)

subsection \<open>Lazy authentication\<close>

text \<open>
  C8, as it is on the code. A new reporter holds no token. A call of
  \<open>update_entity_status\<close> on a reporter that holds a token (one that Python takes as
  true) issues the PATCH with that token and nothing else, and leaves the reporter as
  it was; so an authenticated reporter stays authenticated and never authenticates
  again. A call on a reporter without a token authenticates first: when
  \<open>authenticate\<close> returns a token, the reporter stores it and the PATCH follows the
  POST; when \<open>authenticate\<close> raises, the call raises too, only the POST was issued, and
  the reporter is still without a token, so that the next call authenticates again.
\<close>

theorem reporter_lazy_authentication:
  "\<not> truthy (access_token (PortStatusReporter cid secret)) \<and>
   (truthy (access_token self) \<longrightarrow>
      fst (snd (update_entity_status w self blueprint_id entity_identifier scaling_status
                  details s)) = self \<and>
      sent (snd (snd (update_entity_status w self blueprint_id entity_identifier
                  scaling_status details s))) =
        sent s @ [patch_request self blueprint_id entity_identifier
                    (entity_update w s scaling_status details)] \<and>
      map_of (req_headers (patch_request self blueprint_id entity_identifier
                    (entity_update w s scaling_status details))) ''Authorization''
        = Some (access_token self)) \<and>
   (\<not> truthy (access_token self) \<and> fst (authenticate w self s) = Inr tok \<longrightarrow>
      fst (snd (update_entity_status w self blueprint_id entity_identifier scaling_status
                  details s)) = self\<lparr>access_token := tok\<rparr> \<and>
      sent (snd (snd (update_entity_status w self blueprint_id entity_identifier
                  scaling_status details s))) =
        sent s @ [auth_request self,
                  patch_request (self\<lparr>access_token := tok\<rparr>) blueprint_id entity_identifier
                    (entity_update w
                       (py_print Authenticated (s\<lparr>sent := sent s @ [auth_request self]\<rparr>))
                       scaling_status details)]) \<and>
   (\<not> truthy (access_token self) \<and> fst (authenticate w self s) = Inl e \<longrightarrow>
      update_entity_status w self blueprint_id entity_identifier scaling_status details s =
        (Inl e, self, s\<lparr>sent := sent s @ [auth_request self]\<rparr>))"
proof (intro conjI impI)
  show "\<not> truthy (access_token (PortStatusReporter cid secret))"
    by (simp add: PortStatusReporter_def)
next
  assume tok: "truthy (access_token self)"
  show "fst (snd (update_entity_status w self blueprint_id entity_identifier scaling_status
                  details s)) = self"
    by (simp add: update_entity_status_with_token [OF tok] Let_def
        split: reply.splits sum.splits)
  show "sent (snd (snd (update_entity_status w self blueprint_id entity_identifier
                  scaling_status details s))) =
        sent s @ [patch_request self blueprint_id entity_identifier
                    (entity_update w s scaling_status details)]"
    by (simp add: update_entity_status_with_token [OF tok] Let_def
        split: reply.splits sum.splits)
  show "map_of (req_headers (patch_request self blueprint_id entity_identifier
                    (entity_update w s scaling_status details))) ''Authorization''
        = Some (access_token self)"
    by (simp add: patch_request_def)
next
  assume h: "\<not> truthy (access_token self) \<and> fst (authenticate w self s) = Inr tok"
  then have a: "authenticate w self s =
      (Inr tok, self\<lparr>access_token := tok\<rparr>,
       py_print Authenticated (s\<lparr>sent := sent s @ [auth_request self]\<rparr>))"
    using authenticate_cases [of w self s] by auto
  from h have no_tok: "\<not> truthy (access_token self)"
    by simp
  show "fst (snd (update_entity_status w self blueprint_id entity_identifier scaling_status
                  details s)) = self\<lparr>access_token := tok\<rparr>"
    by (simp add: update_entity_status_auth_returns [OF no_tok a] Let_def
        split: reply.splits sum.splits)
  show "sent (snd (snd (update_entity_status w self blueprint_id entity_identifier
                  scaling_status details s))) =
        sent s @ [auth_request self,
                  patch_request (self\<lparr>access_token := tok\<rparr>) blueprint_id entity_identifier
                    (entity_update w
                       (py_print Authenticated (s\<lparr>sent := sent s @ [auth_request self]\<rparr>))
                       scaling_status details)]"
    by (simp add: update_entity_status_auth_returns [OF no_tok a] Let_def
        split: reply.splits sum.splits)
next
  assume h: "\<not> truthy (access_token self) \<and> fst (authenticate w self s) = Inl e"
  then have a: "authenticate w self s =
      (Inl e, self, s\<lparr>sent := sent s @ [auth_request self]\<rparr>)"
    using authenticate_cases [of w self s] by auto
  from h have no_tok: "\<not> truthy (access_token self)"
    by simp
  show "update_entity_status w self blueprint_id entity_identifier scaling_status details s =
        (Inl e, self, s\<lparr>sent := sent s @ [auth_request self]\<rparr>)"
    by (rule update_entity_status_auth_fails [OF no_tok a])
qed

text \<open>
  C8, as the claim states it, fails. When the authentication request cannot be sent, the
  first call leaves the reporter without a token, and the second call on the same
  reporter authenticates again: the two requests issued are two POSTs.
\<close>

theorem reporter_reauthenticates_after_failure:
  "access_token (fst (snd (update_entity_status
      \<lparr>env = (\<lambda>_. None), transport = (\<lambda>_ _. Raised ''connection refused''),
       utcnow = (\<lambda>_. ''2024-01-01T00:00:00''), py_int = (\<lambda>_. None)\<rparr>
      (PortStatusReporter ''id'' ''secret'')
      ''spot_ocean_cluster'' ''o-1-heartbeat'' ''success'' None \<lparr>sent = [], stdout = []\<rparr>)))
     = JNull \<and>
   map req_method (sent (snd (snd (update_entity_status
      \<lparr>env = (\<lambda>_. None), transport = (\<lambda>_ _. Raised ''connection refused''),
       utcnow = (\<lambda>_. ''2024-01-01T00:00:00''), py_int = (\<lambda>_. None)\<rparr>
      (fst (snd (update_entity_status
         \<lparr>env = (\<lambda>_. None), transport = (\<lambda>_ _. Raised ''connection refused''),
          utcnow = (\<lambda>_. ''2024-01-01T00:00:00''), py_int = (\<lambda>_. None)\<rparr>
         (PortStatusReporter ''id'' ''secret'')
         ''spot_ocean_cluster'' ''o-1-heartbeat'' ''success'' None
         \<lparr>sent = [], stdout = []\<rparr>)))
      ''spot_ocean_cluster'' ''o-1-heartbeat'' ''success'' None
      (snd (snd (update_entity_status
         \<lparr>env = (\<lambda>_. None), transport = (\<lambda>_ _. Raised ''connection refused''),
          utcnow = (\<lambda>_. ''2024-01-01T00:00:00''), py_int = (\<lambda>_. None)\<rparr>
         (PortStatusReporter ''id'' ''secret'')
         ''spot_ocean_cluster'' ''o-1-heartbeat'' ''success'' None
         \<lparr>sent = [], stdout = []\<rparr>))))))) = [POST, POST]"
  by (simp add: update_entity_status_def authenticate_def PortStatusReporter_def send_def
      Let_def)

theorem reporter_lazy_authentication_witness:
  "truthy (access_token ((PortStatusReporter ''id'' ''secret'')\<lparr>access_token := JStr ''tk''\<rparr>)) \<and>
   fst (snd (update_entity_status
      \<lparr>env = (\<lambda>_. None),
       transport = (\<lambda>_ _. Responded
          \<lparr>status_code = 200, resp_text = ''ok'',
           resp_json = Some (JObj [(''accessToken'', JStr ''tk'')])\<rparr>),
       utcnow = (\<lambda>_. ''2024-01-01T00:00:00''), py_int = (\<lambda>_. None)\<rparr>
      ((PortStatusReporter ''id'' ''secret'')\<lparr>access_token := JStr ''tk''\<rparr>)
      ''spot_ocean_cluster'' ''o-1-heartbeat'' ''success'' None \<lparr>sent = [], stdout = []\<rparr>))
     = (PortStatusReporter ''id'' ''secret'')\<lparr>access_token := JStr ''tk''\<rparr> \<and>
   \<not> truthy (access_token (PortStatusReporter ''id'' ''secret'')) \<and>
   fst (authenticate
      \<lparr>env = (\<lambda>_. None),
       transport = (\<lambda>_ _. Responded
          \<lparr>status_code = 200, resp_text = ''ok'',
           resp_json = Some (JObj [(''accessToken'', JStr ''tk'')])\<rparr>),
       utcnow = (\<lambda>_. ''2024-01-01T00:00:00''), py_int = (\<lambda>_. None)\<rparr>
      (PortStatusReporter ''id'' ''secret'') \<lparr>sent = [], stdout = []\<rparr>) = Inr (JStr ''tk'') \<and>
   fst (snd (update_entity_status
      \<lparr>env = (\<lambda>_. None),
       transport = (\<lambda>_ _. Responded
          \<lparr>status_code = 200, resp_text = ''ok'',
           resp_json = Some (JObj [(''accessToken'', JStr ''tk'')])\<rparr>),
       utcnow = (\<lambda>_. ''2024-01-01T00:00:00''), py_int = (\<lambda>_. None)\<rparr>
      (PortStatusReporter ''id'' ''secret'')
      ''spot_ocean_cluster'' ''o-1-heartbeat'' ''success'' None \<lparr>sent = [], stdout = []\<rparr>))
     = (PortStatusReporter ''id'' ''secret'')\<lparr>access_token := JStr ''tk''\<rparr> \<and>
   fst (authenticate
      \<lparr>env = (\<lambda>_. None), transport = (\<lambda>_ _. Raised ''connection refused''),
       utcnow = (\<lambda>_. ''2024-01-01T00:00:00''), py_int = (\<lambda>_. None)\<rparr>
      (PortStatusReporter ''id'' ''secret'') \<lparr>sent = [], stdout = []\<rparr>)
     = Inl (RequestException ''connection refused'') \<and>
   update_entity_status
      \<lparr>env = (\<lambda>_. None), transport = (\<lambda>_ _. Raised ''connection refused''),
       utcnow = (\<lambda>_. ''2024-01-01T00:00:00''), py_int = (\<lambda>_. None)\<rparr>
      (PortStatusReporter ''id'' ''secret'')
      ''spot_ocean_cluster'' ''o-1-heartbeat'' ''success'' None \<lparr>sent = [], stdout = []\<rparr>
     = (Inl (RequestException ''connection refused''), PortStatusReporter ''id'' ''secret'',
        \<lparr>sent = [], stdout = []\<rparr>\<lparr>sent := sent \<lparr>sent = [], stdout = []\<rparr> @
                  [auth_request (PortStatusReporter ''id'' ''secret'')]\<rparr>)"
proof -
  let ?ok = "\<lparr>env = (\<lambda>_. None),
       transport = (\<lambda>_ _. Responded
          \<lparr>status_code = 200, resp_text = ''ok'',
           resp_json = Some (JObj [(''accessToken'', JStr ''tk'')])\<rparr>),
       utcnow = (\<lambda>_. ''2024-01-01T00:00:00''), py_int = (\<lambda>_. None)\<rparr>"
  let ?down = "\<lparr>env = (\<lambda>_. None), transport = (\<lambda>_ _. Raised ''connection refused''),
       utcnow = (\<lambda>_. ''2024-01-01T00:00:00''), py_int = (\<lambda>_. None)\<rparr>"
  let ?new = "PortStatusReporter ''id'' ''secret''"
  let ?s = "\<lparr>sent = [], stdout = []\<rparr>"
  have held: "truthy (access_token (?new\<lparr>access_token := JStr ''tk''\<rparr>))"
    by simp
  have fresh: "\<not> truthy (access_token ?new)"
    by (simp add: PortStatusReporter_def)
  have granted: "fst (authenticate ?ok ?new ?s) = Inr (JStr ''tk'')"
    by (simp add: authenticate_def send_def raise_for_status_def response_json_def
        bind_result_def)
  have refused: "fst (authenticate ?down ?new ?s) = Inl (RequestException ''connection refused'')"
    by (simp add: authenticate_def send_def)
  show ?thesis
    using held fresh granted refused
      reporter_lazy_authentication [of "''id''" "''secret''"
        "?new\<lparr>access_token := JStr ''tk''\<rparr>" ?ok "''spot_ocean_cluster''"
        "''o-1-heartbeat''" "''success''" None ?s]
      reporter_lazy_authentication [of "''id''" "''secret''" ?new ?ok
        "''spot_ocean_cluster''" "''o-1-heartbeat''" "''success''" None ?s "JStr ''tk''"]
      reporter_lazy_authentication [of "''id''" "''secret''" ?new ?down
        "''spot_ocean_cluster''" "''o-1-heartbeat''" "''success''" None ?s _
        "RequestException ''connection refused''"]
    by blast
qed

end
